theory Spec2Isabelle
  imports Complex_Main
begin

section \<open>The SEIR simulation script\<close>

text \<open>
  The program is one Python script, \<^verbatim>\<open>seir_streamlit_app.py\<close>: it reads eight
  widget values, builds the initial state, defines the right-hand side \<^verbatim>\<open>seir_model\<close>
  of the SEIR(D) system, hands both to the library routine \<^verbatim>\<open>solve_ivp\<close>, and prints
  two numbers taken from the arrays that come back.

  Python floats are modelled as the real numbers (their rounding is outside the model),
  Python integers as \<open>int\<close>. Where the script would raise, the model returns the
  exception as a value.
\<close>

subsection \<open>Exceptions and built-ins\<close>

datatype py_error = ValueError | ZeroDivisionError | IndexError

text \<open>\<^verbatim>\<open>int(x)\<close> on a float drops the fractional part (rounds toward zero).\<close>

definition py_int :: "real \<Rightarrow> int" where
  "py_int x = (if 0 \<le> x then \<lfloor>x\<rfloor> else \<lceil>x\<rceil>)"

text \<open>
  \<^verbatim>\<open>max(xs)\<close> walks the sequence and replaces the running maximum only by a strictly
  greater item, so the first of several equal maxima is kept; an empty sequence raises
  \<^verbatim>\<open>ValueError\<close>.
\<close>

definition py_max :: "real list \<Rightarrow> py_error + real" where
  "py_max xs =
     (case xs of
        [] \<Rightarrow> Inl ValueError
      | x # rest \<Rightarrow> Inr (fold (\<lambda>item maxitem. if item > maxitem then item else maxitem) rest x))"

text \<open>\<^verbatim>\<open>xs[-1]\<close>: the last element, \<^verbatim>\<open>IndexError\<close> on an empty array.\<close>

definition py_last :: "real list \<Rightarrow> py_error + real" where
  "py_last xs = (if xs = [] then Inl IndexError else Inr (last xs))"

text \<open>\<^verbatim>\<open>np.arange(start, stop, 1)\<close> on integers: \<open>start, start + 1, \<dots>, stop - 1\<close>.\<close>

definition arange :: "int \<Rightarrow> int \<Rightarrow> real list" where
  "arange start stop = map real_of_int [start..stop - 1]"

subsection \<open>Module-level names (lines 38 to 52)\<close>

text \<open>
  The values bound at module level and read by everything below them. \<open>sigma\<close> and
  \<open>gamma\<close> are already the reciprocals of the two period sliders.
\<close>

record globals =
  N :: int
  beta :: real
  sigma :: real
  gamma :: real
  fatality_rate :: real
  initial_infected :: int
  initial_exposed :: int
  days :: int

definition S0 :: "globals \<Rightarrow> int" where
  "S0 g = N g - initial_infected g - initial_exposed g"

definition E0 :: "globals \<Rightarrow> int" where
  "E0 g = initial_exposed g"

definition I0 :: "globals \<Rightarrow> int" where
  "I0 g = initial_infected g"

definition R0 :: int where
  "R0 = 0"

definition D0 :: int where
  "D0 = 0"

text \<open>The list \<^verbatim>\<open>[S0, E0, I0, R0, D0]\<close> that is passed to the solver.\<close>

definition initial_state :: "globals \<Rightarrow> int list" where
  "initial_state g = [S0 g, E0 g, I0 g, R0, D0]"

subsection \<open>The right-hand side (lines 54 to 61)\<close>

text \<open>
  \<^verbatim>\<open>S, E, I, R, D = y\<close> raises \<^verbatim>\<open>ValueError\<close> unless \<open>y\<close> has exactly five entries.
  The quotient by \<open>N\<close> has no real value when \<open>N = 0\<close> (Python floats raise
  \<^verbatim>\<open>ZeroDivisionError\<close>, numpy floats give an infinity or a NaN): the model returns the
  error there. The time argument is not read.
\<close>

definition seir_model :: "globals \<Rightarrow> real \<Rightarrow> real list \<Rightarrow> py_error + real list" where
  "seir_model g t y =
     (case y of
        [S, E, I, R, D] \<Rightarrow>
          if N g = 0 then Inl ZeroDivisionError
          else
            let dSdt = - beta g * S * I / real_of_int (N g);
                dEdt = beta g * S * I / real_of_int (N g) - sigma g * E;
                dIdt = sigma g * E - gamma g * I;
                dRdt = gamma g * (1 - fatality_rate g) * I;
                dDdt = gamma g * fatality_rate g * I
            in Inr [dSdt, dEdt, dIdt, dRdt, dDdt]
      | _ \<Rightarrow> Inl ValueError)"

subsection \<open>Solving and reporting (lines 63 to 85)\<close>

text \<open>
  \<^verbatim>\<open>solve_ivp\<close> belongs to scipy, not to this program, so the model takes it as a
  parameter: a function from the right-hand side, the time span, the initial state and
  the requested output times to either an exception or an object with the fields
  \<^verbatim>\<open>t\<close> (the times) and \<^verbatim>\<open>y\<close> (one row per component).
\<close>

record solution =
  sol_t :: "real list"
  sol_y :: "real list list"

type_synonym ode = "real \<Rightarrow> real list \<Rightarrow> py_error + real list"

type_synonym solver = "ode \<Rightarrow> real \<times> real \<Rightarrow> real list \<Rightarrow> real list \<Rightarrow> py_error + solution"

text \<open>
  What the script holds at its end: the arrays it plots (\<^verbatim>\<open>time\<close> and the rows
  \<^verbatim>\<open>S, E, I, R, D\<close>) and the two integers it prints.
\<close>

record outcome =
  out_time :: "real list"
  out_S :: "real list"
  out_E :: "real list"
  out_I :: "real list"
  out_R :: "real list"
  out_D :: "real list"
  peak_infected :: int
  total_deaths :: int

text \<open>
  Lines 65 to 85: unpack the five rows (\<^verbatim>\<open>ValueError\<close> unless there are five), then
  print \<^verbatim>\<open>int(max(I))\<close> and \<^verbatim>\<open>int(D[-1])\<close>, in this order.
\<close>

definition report :: "solution \<Rightarrow> py_error + outcome" where
  "report sol =
     (case sol_y sol of
        [S, E, I, R, D] \<Rightarrow>
          (case py_max I of
             Inl e \<Rightarrow> Inl e
           | Inr m \<Rightarrow>
               (case py_last D of
                  Inl e \<Rightarrow> Inl e
                | Inr d \<Rightarrow>
                    Inr \<lparr>out_time = sol_t sol, out_S = S, out_E = E, out_I = I,
                         out_R = R, out_D = D,
                         peak_infected = py_int m, total_deaths = py_int d\<rparr>))
      | _ \<Rightarrow> Inl ValueError)"

text \<open>Lines 47 to 85: the solver is called on the initial state without any check.\<close>

definition simulate :: "solver \<Rightarrow> globals \<Rightarrow> py_error + outcome" where
  "simulate solve_ivp g =
     (case solve_ivp (seir_model g) (0, real_of_int (days g))
             (map real_of_int (initial_state g)) (arange 0 (days g)) of
        Inl e \<Rightarrow> Inl e
      | Inr sol \<Rightarrow> report sol)"

subsection \<open>The widgets (lines 38 to 45)\<close>

text \<open>
  The eight values come from number inputs and sliders. Each widget is declared with
  a \<^verbatim>\<open>min_value\<close> and a \<^verbatim>\<open>max_value\<close>, and hands back a value between them;
  these bounds are the only restriction the script places on its inputs. (The slider
  steps are not modelled.)
\<close>

record widgets =
  total_population :: int
  transmission_rate :: real
  incubation_period :: int
  infectious_period :: int
  fatality_rate_slider :: real
  initial_infected_individuals :: int
  initial_exposed_individuals :: int
  simulation_days :: int

definition within_bounds :: "widgets \<Rightarrow> bool" where
  "within_bounds w \<longleftrightarrow>
     1000 \<le> total_population w \<and> total_population w \<le> 10000000 \<and>
     1 / 10 \<le> transmission_rate w \<and> transmission_rate w \<le> 1 \<and>
     1 \<le> incubation_period w \<and> incubation_period w \<le> 14 \<and>
     1 \<le> infectious_period w \<and> infectious_period w \<le> 21 \<and>
     0 \<le> fatality_rate_slider w \<and> fatality_rate_slider w \<le> 1 / 10 \<and>
     1 \<le> initial_infected_individuals w \<and> initial_infected_individuals w \<le> 1000 \<and>
     1 \<le> initial_exposed_individuals w \<and> initial_exposed_individuals w \<le> 1000 \<and>
     30 \<le> simulation_days w \<and> simulation_days w \<le> 365"

text \<open>
  Lines 38 to 45. The two reciprocals \<^verbatim>\<open>1 / st.slider(...)\<close> are evaluated in the
  order of the source and raise \<^verbatim>\<open>ZeroDivisionError\<close> on a zero period.
\<close>

definition read_widgets :: "widgets \<Rightarrow> py_error + globals" where
  "read_widgets w =
     (if incubation_period w = 0 then Inl ZeroDivisionError
      else if infectious_period w = 0 then Inl ZeroDivisionError
      else Inr \<lparr>N = total_population w,
                beta = transmission_rate w,
                sigma = 1 / real_of_int (incubation_period w),
                gamma = 1 / real_of_int (infectious_period w),
                fatality_rate = fatality_rate_slider w,
                initial_infected = initial_infected_individuals w,
                initial_exposed = initial_exposed_individuals w,
                days = simulation_days w\<rparr>)"

text \<open>The whole script, from the widgets to the printed numbers.\<close>

definition script :: "solver \<Rightarrow> widgets \<Rightarrow> py_error + outcome" where
  "script solve_ivp w =
     (case read_widgets w of
        Inl e \<Rightarrow> Inl e
      | Inr g \<Rightarrow> simulate solve_ivp g)"

subsection \<open>Recorded solver answers\<close>

text \<open>
  To run the script on concrete data the solver parameter has to be filled in:
  \<open>replay sol\<close> answers every call with the solution object \<open>sol\<close>.
\<close>

definition replay :: "solution \<Rightarrow> solver" where
  "replay sol f t_span y0 t_eval = Inr sol"

text \<open>
  What \<^verbatim>\<open>solve_ivp\<close> promises when it succeeds, stated for one answer \<open>sol\<close> to a
  call with initial time \<open>t0\<close>, initial state \<open>y0\<close> and output times \<open>t_eval\<close>: the times
  reported are the requested ones, every row has one entry per time, and a first
  requested time equal to \<open>t0\<close> carries the initial state.
\<close>

definition samples_as_requested :: "real \<Rightarrow> real list \<Rightarrow> real list \<Rightarrow> solution \<Rightarrow> bool" where
  "samples_as_requested t0 y0 t_eval sol \<longleftrightarrow>
     sol_t sol = t_eval \<and>
     (\<forall>row \<in> set (sol_y sol). length row = length t_eval) \<and>
     (t_eval \<noteq> [] \<and> hd t_eval = t0 \<longrightarrow> map hd (sol_y sol) = y0)"

subsection \<open>A recorded run\<close>

text \<open>
  Test data: thirty daily samples for a population of 1000 with ten infected and six
  exposed individuals, the state after the first day being held for the rest of the
  month, and what the script holds after it.
\<close>

definition sample_globals :: globals where
  "sample_globals =
     \<lparr>N = 1000, beta = 3 / 10, sigma = 1 / 5, gamma = 1 / 10, fatality_rate = 1 / 50,
      initial_infected = 10, initial_exposed = 6, days = 30\<rparr>"

definition sample_solution :: solution where
  "sample_solution =
     \<lparr>sol_t = arange 0 30,
      sol_y = [984 # replicate 29 (122631 / 125), 6 # replicate 29 (969 / 125),
               10 # replicate 29 (51 / 5), 0 # replicate 29 (49 / 500),
               0 # replicate 29 (1 / 500)]\<rparr>"

definition sample_outcome :: outcome where
  "sample_outcome =
     \<lparr>out_time = arange 0 30,
      out_S = 984 # replicate 29 (122631 / 125), out_E = 6 # replicate 29 (969 / 125),
      out_I = 10 # replicate 29 (51 / 5), out_R = 0 # replicate 29 (49 / 500),
      out_D = 0 # replicate 29 (1 / 500),
      peak_infected = 10, total_deaths = 0\<rparr>"

subsection \<open>Two answers of the integration method\<close>

text \<open>
  Test data: the thirty daily samples that the Dormand-Prince method of order 5(4), run
  with the default tolerances of \<^verbatim>\<open>solve_ivp\<close> (relative \<open>1e-3\<close>, absolute \<open>1e-6\<close>),
  gives for two calls of the script, every sample rounded to ten decimal places.

  The first call comes from widget values within their bounds: a population of 1000,
  \<open>beta = 0.1\<close>, periods of one day, a fatality rate of 0.02, ten infected and five
  exposed individuals, 30 days.
\<close>

definition dip_S :: "real list" where
  "dip_S =
    [985, 9842386802815 / 10000000000, 9838175062097 / 10000000000,
     9835953251114 / 10000000000, 9834807663799 / 10000000000, 9834223400413 / 10000000000,
     9833927413207 / 10000000000, 9833777997238 / 10000000000, 9833702473021 / 10000000000,
     9833664391063 / 10000000000, 9833645239529 / 10000000000, 9833635582181 / 10000000000,
     9833630704404 / 10000000000, 9833628253639 / 10000000000, 9833627020705 / 10000000000,
     9833626396520 / 10000000000, 9833626083363 / 10000000000, 9833625925985 / 10000000000,
     9833625845734 / 10000000000, 9833625806351 / 10000000000, 9833625785557 / 10000000000,
     9833625775723 / 10000000000, 9833625770573 / 10000000000, 9833625767633 / 10000000000,
     9833625766794 / 10000000000, 9833625766040 / 10000000000, 9833625765335 / 10000000000,
     9833625765298 / 10000000000, 9833625765622 / 10000000000, 9833625765486 / 10000000000]"

definition dip_E :: "real list" where
  "dip_E =
    [5, 22993406224 / 10000000000, 10991445959 / 10000000000, 5377754740 / 10000000000,
     2664237062 / 10000000000, 1328830667 / 10000000000, 666224036 / 10000000000,
     335070629 / 10000000000, 168422299 / 10000000000, 84691518 / 10000000000,
     42673060 / 10000000000, 21502666 / 10000000000, 10815196 / 10000000000,
     5448134 / 10000000000, 2748599 / 10000000000, 1382017 / 10000000000, 696479 / 10000000000,
     351970 / 10000000000, 176296 / 10000000000, 90091 / 10000000000, 44571 / 10000000000,
     23048 / 10000000000, 11773 / 10000000000, 5333 / 10000000000, 3507 / 10000000000,
     1828 / 10000000000, 217 / 10000000000, 211 / 10000000000, 1056 / 10000000000,
     684 / 10000000000]"

definition dip_I :: "real list" where
  "dip_I =
    [10, 57298567680 / 10000000000, 30711246077 / 10000000000, 15960618067 / 10000000000,
     8172100728 / 10000000000, 4150820264 / 10000000000, 2099598256 / 10000000000,
     1060762037 / 10000000000, 534923337 / 10000000000, 269475651 / 10000000000,
     135890607 / 10000000000, 68511096 / 10000000000, 34473336 / 10000000000,
     17368879 / 10000000000, 8763413 / 10000000000, 4406727 / 10000000000,
     2220874 / 10000000000, 1122345 / 10000000000, 562185 / 10000000000, 287279 / 10000000000,
     142137 / 10000000000, 73493 / 10000000000, 37547 / 10000000000, 17024 / 10000000000,
     11163 / 10000000000, 5929 / 10000000000, 1078 / 10000000000, 741 / 10000000000,
     2870 / 10000000000, 1988 / 10000000000]"

definition dip_R :: "real list" where
  "dip_R =
    [0, 75774798815 / 10000000000, 117719800950 / 10000000000, 139854208558 / 10000000000,
     151268878443 / 10000000000, 157091009682 / 10000000000, 160040629211 / 10000000000,
     161529646694 / 10000000000, 162282297716 / 10000000000, 162661812932 / 10000000000,
     162852672869 / 10000000000, 162948915975 / 10000000000, 162997526923 / 10000000000,
     163021950762 / 10000000000, 163034237937 / 10000000000, 163040458441 / 10000000000,
     163043579298 / 10000000000, 163045147706 / 10000000000, 163045947469 / 10000000000,
     163046339953 / 10000000000, 163046547180 / 10000000000, 163046645182 / 10000000000,
     163046696505 / 10000000000, 163046725810 / 10000000000, 163046734165 / 10000000000,
     163046741678 / 10000000000, 163046748703 / 10000000000, 163046749074 / 10000000000,
     163046745843 / 10000000000, 163046747205 / 10000000000]"

definition dip_D :: "real list" where
  "dip_D =
    [0, 1546424466 / 10000000000, 2402444917 / 10000000000, 2854167522 / 10000000000,
     3087119968 / 10000000000, 3205938973 / 10000000000, 3266135290 / 10000000000,
     3296523402 / 10000000000, 3311883627 / 10000000000, 3319628835 / 10000000000,
     3323523936 / 10000000000, 3325488081 / 10000000000, 3326480141 / 10000000000,
     3326978587 / 10000000000, 3327229346 / 10000000000, 3327356295 / 10000000000,
     3327419986 / 10000000000, 3327451994 / 10000000000, 3327468316 / 10000000000,
     3327476326 / 10000000000, 3327480555 / 10000000000, 3327482555 / 10000000000,
     3327483602 / 10000000000, 3327484200 / 10000000000, 3327484371 / 10000000000,
     3327484524 / 10000000000, 3327484667 / 10000000000, 3327484675 / 10000000000,
     3327484609 / 10000000000, 3327484637 / 10000000000]"

definition dip_widgets :: widgets where
  "dip_widgets =
     \<lparr>total_population = 1000, transmission_rate = 1 / 10, incubation_period = 1,
      infectious_period = 1, fatality_rate_slider = 1 / 50,
      initial_infected_individuals = 10, initial_exposed_individuals = 5,
      simulation_days = 30\<rparr>"

definition dip_solution :: solution where
  "dip_solution = \<lparr>sol_t = arange 0 30, sol_y = [dip_S, dip_E, dip_I, dip_R, dip_D]\<rparr>"

definition dip_outcome :: outcome where
  "dip_outcome =
     \<lparr>out_time = arange 0 30, out_S = dip_S, out_E = dip_E, out_I = dip_I,
      out_R = dip_R, out_D = dip_D, peak_infected = 10, total_deaths = 0\<rparr>"

text \<open>
  The second call has no transmission: a population of 1000, \<open>beta = 0\<close>,
  \<open>sigma = gamma = 1\<close>, a fatality rate of 0.02, one infected and three exposed
  individuals, 30 days.
\<close>

definition calm_S :: "real list" where
  "calm_S =
    [996, 996, 996, 996, 996, 996, 996, 996, 996, 996, 996, 996, 996, 996, 996, 996, 996, 996,
     996, 996, 996, 996, 996, 996, 996, 996, 996, 996, 996, 996]"

definition calm_E :: "real list" where
  "calm_E =
    [3, 11035767351 / 10000000000, 4060802912 / 10000000000, 1494260785 / 10000000000,
     550003664 / 10000000000, 202555291 / 10000000000, 74625561 / 10000000000,
     27498274 / 10000000000, 10134195 / 10000000000, 3736220 / 10000000000,
     1377706 / 10000000000, 507019 / 10000000000, 186418 / 10000000000, 69042 / 10000000000,
     26079 / 10000000000, 9285 / 10000000000, 3715 / 10000000000, 1212 / 10000000000,
     733 / 10000000000, 5 / 10000000000, 211 / 10000000000, 98 / 10000000000,
     - (655 / 10000000000), - (262 / 10000000000), 839 / 10000000000, - (521 / 10000000000),
     - (3665 / 10000000000), - (1939 / 10000000000), 3563 / 10000000000, 3563 / 10000000000]"

definition calm_I :: "real list" where
  "calm_I =
    [1, 14717879427 / 10000000000, 9469994622 / 10000000000, 4975947509 / 10000000000,
     2379208472 / 10000000000, 1077133326 / 10000000000, 470662012 / 10000000000,
     200601000 / 10000000000, 83931394 / 10000000000, 34620719 / 10000000000,
     14119624 / 10000000000, 5701047 / 10000000000, 2282462 / 10000000000,
     910617 / 10000000000, 364983 / 10000000000, 141298 / 10000000000, 57821 / 10000000000,
     21185 / 10000000000, 10904 / 10000000000, 2038 / 10000000000, 2489 / 10000000000,
     1858 / 10000000000, - (1581 / 10000000000), - (858 / 10000000000), 2577 / 10000000000,
     5086 / 10000000000, 12437 / 10000000000, 5324 / 10000000000, - (12464 / 10000000000),
     - (10067 / 10000000000)]"

definition calm_R :: "real list" where
  "calm_R =
    [0, 13961426157 / 10000000000, 25939818417 / 10000000000, 32859195872 / 10000000000,
     36329372107 / 10000000000, 37945905155 / 10000000000, 38665618179 / 10000000000,
     38976462712 / 10000000000, 39107815722 / 10000000000, 39162410200 / 10000000000,
     39184812616 / 10000000000, 39193916094 / 10000000000, 39197580498 / 10000000000,
     39199039934 / 10000000000, 39199616759 / 10000000000, 39199852429 / 10000000000,
     39199939695 / 10000000000, 39199978051 / 10000000000, 39199988596 / 10000000000,
     39199997998 / 10000000000, 39199997354 / 10000000000, 39199998084 / 10000000000,
     39200002192 / 10000000000, 39200001098 / 10000000000, 39199996652 / 10000000000,
     39199995527 / 10000000000, 39199991403 / 10000000000, 39199996682 / 10000000000,
     39200008724 / 10000000000, 39200006375 / 10000000000]"

definition calm_D :: "real list" where
  "calm_D =
    [0, 284927064 / 10000000000, 529384049 / 10000000000, 670595834 / 10000000000,
     741415757 / 10000000000, 774406228 / 10000000000, 789094249 / 10000000000,
     795438015 / 10000000000, 798118688 / 10000000000, 799232861 / 10000000000,
     799690053 / 10000000000, 799875839 / 10000000000, 799950622 / 10000000000,
     799980407 / 10000000000, 799992179 / 10000000000, 799996988 / 10000000000,
     799998769 / 10000000000, 799999552 / 10000000000, 799999767 / 10000000000,
     799999959 / 10000000000, 799999946 / 10000000000, 799999961 / 10000000000,
     800000045 / 10000000000, 800000022 / 10000000000, 799999932 / 10000000000,
     799999909 / 10000000000, 799999825 / 10000000000, 799999932 / 10000000000,
     800000178 / 10000000000, 800000130 / 10000000000]"

definition calm_globals :: globals where
  "calm_globals =
     \<lparr>N = 1000, beta = 0, sigma = 1, gamma = 1, fatality_rate = 1 / 50,
      initial_infected = 1, initial_exposed = 3, days = 30\<rparr>"

definition calm_solution :: solution where
  "calm_solution = \<lparr>sol_t = arange 0 30, sol_y = [calm_S, calm_E, calm_I, calm_R, calm_D]\<rparr>"

definition calm_outcome :: outcome where
  "calm_outcome =
     \<lparr>out_time = arange 0 30, out_S = calm_S, out_E = calm_E, out_I = calm_I,
      out_R = calm_R, out_D = calm_D, peak_infected = 1, total_deaths = 0\<rparr>"

subsection \<open>The trajectory being approximated\<close>

text \<open>
  The solver approximates a solution of the differential equation whose right-hand
  side is \<open>seir_model\<close>. \<open>seir_trajectory g A S E I R D\<close> says that the five functions
  of time are such a solution on the set of times \<open>A\<close>: at every time of \<open>A\<close>
  the right-hand side is defined at the current state and its five entries are the
  derivatives of \<open>S\<close>, \<open>E\<close>, \<open>I\<close>, \<open>R\<close> and \<open>D\<close> there (two-sided
  derivatives, also at the ends of an interval).
\<close>

definition seir_trajectory ::
  "globals \<Rightarrow> real set \<Rightarrow> (real \<Rightarrow> real) \<Rightarrow> (real \<Rightarrow> real) \<Rightarrow> (real \<Rightarrow> real) \<Rightarrow>
     (real \<Rightarrow> real) \<Rightarrow> (real \<Rightarrow> real) \<Rightarrow> bool" where
  "seir_trajectory g A S E I R D \<longleftrightarrow>
     (\<forall>t \<in> A.
        \<exists>dS dE dI dR dD.
          seir_model g t [S t, E t, I t, R t, D t] = Inr [dS, dE, dI, dR, dD] \<and>
          (S has_real_derivative dS) (at t) \<and>
          (E has_real_derivative dE) (at t) \<and>
          (I has_real_derivative dI) (at t) \<and>
          (R has_real_derivative dR) (at t) \<and>
          (D has_real_derivative dD) (at t))"

text \<open>
  Explicit trajectories, used as test data. \<open>steady c\<close> is a compartment that keeps
  the level \<open>c\<close>. For \<open>sigma = gamma = 1\<close> and a susceptible compartment that does
  not feed the exposed one (no transmission, or nobody susceptible), \<open>e0\<close> exposed and
  \<open>i0\<close> infected individuals pass through the compartments along \<open>wave_E\<close>,
  \<open>wave_I\<close>, \<open>wave_R\<close> and \<open>wave_D\<close>, a share \<open>f\<close> of the outflow dying.
  For \<open>sigma = 1\<close> and \<open>gamma = 0\<close> the infected compartment only fills, along
  \<open>fill_I\<close>. For \<open>sigma = 0\<close> and \<open>gamma = 1\<close> the \<open>i0\<close> infected individuals
  decay as \<open>wave_I 0 i0\<close> while they infect the susceptible ones, who move along
  \<open>contact_S\<close> into the exposed compartment \<open>contact_E\<close>; here \<open>c\<close> stands for
  \<open>beta * i0 / N\<close>.
\<close>

definition steady :: "real \<Rightarrow> real \<Rightarrow> real" where
  "steady c t = c"

definition wave_E :: "real \<Rightarrow> real \<Rightarrow> real" where
  "wave_E e0 t = e0 * exp (- t)"

definition wave_I :: "real \<Rightarrow> real \<Rightarrow> real \<Rightarrow> real" where
  "wave_I e0 i0 t = (i0 + e0 * t) * exp (- t)"

definition wave_R :: "real \<Rightarrow> real \<Rightarrow> real \<Rightarrow> real \<Rightarrow> real" where
  "wave_R f e0 i0 t = (1 - f) * ((e0 + i0) - (e0 + i0 + e0 * t) * exp (- t))"

definition wave_D :: "real \<Rightarrow> real \<Rightarrow> real \<Rightarrow> real \<Rightarrow> real" where
  "wave_D f e0 i0 t = f * ((e0 + i0) - (e0 + i0 + e0 * t) * exp (- t))"

definition fill_I :: "real \<Rightarrow> real \<Rightarrow> real \<Rightarrow> real" where
  "fill_I e0 i0 t = i0 + e0 * (1 - exp (- t))"

definition contact_S :: "real \<Rightarrow> real \<Rightarrow> real \<Rightarrow> real" where
  "contact_S s0 c t = s0 * exp (- (c * (1 - exp (- t))))"

definition contact_E :: "real \<Rightarrow> real \<Rightarrow> real \<Rightarrow> real \<Rightarrow> real" where
  "contact_E s0 e0 c t = e0 + s0 - contact_S s0 c t"

section \<open>Auxiliary facts\<close>

subsection \<open>Built-ins\<close>

lemma fold_keep_greater:
  "fold (\<lambda>item maxitem. if item > maxitem then item else maxitem) rest (x::real)
     = Max (set (x # rest))"
proof (induction rest arbitrary: x)
  case Nil
  then show ?case by simp
next
  case (Cons a rest)
  have "Max (insert (if x < a then a else x) (set rest)) = Max (insert x (insert a (set rest)))"
    by (cases "set rest = {}") (auto simp: max_def)
  with Cons show ?case by simp
qed

lemma py_max_nonempty: "xs \<noteq> [] \<Longrightarrow> py_max xs = Inr (Max (set xs))"
  by (cases xs) (simp_all add: py_max_def fold_keep_greater del: set_simps Max_insert)

lemma py_max_empty: "py_max [] = Inl ValueError"
  by (simp add: py_max_def)

lemma py_int_mono:
  assumes "x \<le> y"
  shows "py_int x \<le> py_int y"
proof (cases "0 \<le> x")
  case True
  with assms show ?thesis by (simp add: py_int_def floor_mono)
next
  case False
  show ?thesis
  proof (cases "0 \<le> y")
    case True
    have "\<lceil>x\<rceil> \<le> 0" using False by (simp add: ceiling_le_iff)
    moreover have "0 \<le> \<lfloor>y\<rfloor>" using True by simp
    ultimately have "\<lceil>x\<rceil> \<le> \<lfloor>y\<rfloor>" by (rule order_trans)
    then show ?thesis using False True by (simp add: py_int_def)
  next
    case y: False
    with False assms show ?thesis by (simp add: py_int_def ceiling_mono)
  qed
qed

lemma py_int_of_int: "py_int (real_of_int k) = k"
  by (simp add: py_int_def)

lemma length_arange: "length (arange 0 n) = nat n"
  by (simp add: arange_def)

lemma nth_arange: "k < nat n \<Longrightarrow> arange 0 n ! k = real k"
  by (simp add: arange_def)

lemma arange_increasing: "sorted_wrt (<) (arange 0 n)"
  unfolding arange_def by (simp add: sorted_wrt_map sorted_wrt_upto)

lemma arange_subset: "set (arange 0 n) \<subseteq> {0..real_of_int n}"
  by (auto simp: arange_def)

subsection \<open>What a successful run went through\<close>

lemma report_Inr:
  assumes "report sol = Inr out"
  shows "sol_y sol = [out_S out, out_E out, out_I out, out_R out, out_D out]
       \<and> out_time out = sol_t sol
       \<and> out_I out \<noteq> [] \<and> out_D out \<noteq> []
       \<and> peak_infected out = py_int (Max (set (out_I out)))
       \<and> total_deaths out = py_int (last (out_D out))"
proof -
  from assms obtain S E I R D where y: "sol_y sol = [S, E, I, R, D]"
    unfolding report_def by (auto split: list.splits)
  have I: "I \<noteq> []" using assms y by (auto simp: report_def py_max_empty)
  have D: "D \<noteq> []" using assms y I
    by (auto simp: report_def py_max_nonempty py_last_def split: if_splits)
  show ?thesis using assms y I D
    by (auto simp: report_def py_max_nonempty py_last_def)
qed

lemma simulate_Inr:
  assumes "simulate solve_ivp g = Inr out"
  shows "\<exists>sol. solve_ivp (seir_model g) (0, real_of_int (days g))
             (map real_of_int (initial_state g)) (arange 0 (days g)) = Inr sol
           \<and> report sol = Inr out"
  using assms unfolding simulate_def by (auto split: sum.splits)

subsection \<open>Trajectories\<close>

lemma seir_model_sum_zero:
  assumes "seir_model g t y = Inr d"
  shows "sum_list d = 0"
proof -
  from assms obtain S E I R D where y: "y = [S, E, I, R, D]"
    unfolding seir_model_def by (auto split: list.splits)
  from assms y have "N g \<noteq> 0"
    by (auto simp: seir_model_def split: if_splits)
  with assms y show ?thesis
    by (auto simp: seir_model_def Let_def algebra_simps)
qed

lemma seir_trajectoryD:
  assumes "seir_trajectory g A S E I R D" and "t \<in> A"
  shows "N g \<noteq> 0"
    and "(S has_real_derivative (- beta g * S t * I t / real_of_int (N g))) (at t)"
    and "(E has_real_derivative (beta g * S t * I t / real_of_int (N g) - sigma g * E t)) (at t)"
    and "(I has_real_derivative (sigma g * E t - gamma g * I t)) (at t)"
    and "(R has_real_derivative (gamma g * (1 - fatality_rate g) * I t)) (at t)"
    and "(D has_real_derivative (gamma g * fatality_rate g * I t)) (at t)"
proof -
  from assms obtain dS dE dI dR dD where
    m: "seir_model g t [S t, E t, I t, R t, D t] = Inr [dS, dE, dI, dR, dD]"
    and d: "(S has_real_derivative dS) (at t)" "(E has_real_derivative dE) (at t)"
      "(I has_real_derivative dI) (at t)" "(R has_real_derivative dR) (at t)"
      "(D has_real_derivative dD) (at t)"
    unfolding seir_trajectory_def by blast
  from m show n: "N g \<noteq> 0" by (auto simp: seir_model_def split: if_splits)
  from m n have "dS = - beta g * S t * I t / real_of_int (N g)"
    "dE = beta g * S t * I t / real_of_int (N g) - sigma g * E t"
    "dI = sigma g * E t - gamma g * I t"
    "dR = gamma g * (1 - fatality_rate g) * I t"
    "dD = gamma g * fatality_rate g * I t"
    by (simp_all add: seir_model_def Let_def)
  with d show
    "(S has_real_derivative (- beta g * S t * I t / real_of_int (N g))) (at t)"
    "(E has_real_derivative (beta g * S t * I t / real_of_int (N g) - sigma g * E t)) (at t)"
    "(I has_real_derivative (sigma g * E t - gamma g * I t)) (at t)"
    "(R has_real_derivative (gamma g * (1 - fatality_rate g) * I t)) (at t)"
    "(D has_real_derivative (gamma g * fatality_rate g * I t)) (at t)"
    by simp_all
qed

lemma zero_derivative_constant:
  fixes f :: "real \<Rightarrow> real"
  assumes "a \<le> b" and "\<And>x. a \<le> x \<Longrightarrow> x \<le> b \<Longrightarrow> (f has_real_derivative 0) (at x)"
  shows "f b = f a"
proof -
  have "f a \<le> f b"
    by (rule DERIV_nonneg_imp_nondecreasing [OF assms(1)]) (use assms(2) in auto)
  moreover have "f b \<le> f a"
    by (rule DERIV_nonpos_imp_nonincreasing [OF assms(1)]) (use assms(2) in auto)
  ultimately show ?thesis by simp
qed

lemma total_constant:
  assumes traj: "seir_trajectory g A S E I R D" and t: "0 \<le> t" "{0..t} \<subseteq> A"
  shows "S t + E t + I t + R t + D t = S 0 + E 0 + I 0 + R 0 + D 0"
proof -
  have "((\<lambda>x. S x + E x + I x + R x + D x) has_real_derivative 0) (at x)"
    if x: "0 \<le> x" "x \<le> t" for x
  proof -
    have xA: "x \<in> A" using x t by auto
    note d = seir_trajectoryD [OF traj xA]
    show ?thesis
      by (rule DERIV_cong [OF DERIV_add [OF DERIV_add [OF DERIV_add [OF DERIV_add
                [OF d(2) d(3)] d(4)] d(5)] d(6)]])
         (simp add: algebra_simps)
  qed
  from zero_derivative_constant [of 0 t "\<lambda>x. S x + E x + I x + R x + D x", OF t(1) this]
  show ?thesis by simp
qed

lemma steady_derivative: "(steady c has_real_derivative 0) (at t)"
proof -
  have "steady c = (\<lambda>x. c)" by (rule ext) (simp add: steady_def)
  then show ?thesis by simp
qed

lemma wave_E_derivative: "(wave_E e0 has_real_derivative (- wave_E e0 t)) (at t)"
proof -
  have "wave_E e0 = (\<lambda>x. e0 * exp (- x))" by (rule ext) (simp add: wave_E_def)
  moreover have "((\<lambda>x. e0 * exp (- x)) has_real_derivative (- (e0 * exp (- t)))) (at t)"
    by (auto intro!: derivative_eq_intros)
  ultimately show ?thesis by (simp add: wave_E_def)
qed

lemma wave_I_derivative:
  "(wave_I e0 i0 has_real_derivative (wave_E e0 t - wave_I e0 i0 t)) (at t)"
proof -
  have "wave_I e0 i0 = (\<lambda>x. (i0 + e0 * x) * exp (- x))"
    by (rule ext) (simp add: wave_I_def)
  moreover have "((\<lambda>x. (i0 + e0 * x) * exp (- x)) has_real_derivative
      (e0 * exp (- t) - (i0 + e0 * t) * exp (- t))) (at t)"
    by (auto intro!: derivative_eq_intros simp: algebra_simps)
  ultimately show ?thesis by (simp add: wave_E_def wave_I_def)
qed

lemma wave_out_derivative:
  "((\<lambda>x. c * ((e0 + i0) - (e0 + i0 + e0 * x) * exp (- x))) has_real_derivative
      (c * wave_I e0 i0 t)) (at t)"
  unfolding wave_I_def
  by (auto intro!: derivative_eq_intros simp: algebra_simps)

lemma wave_R_derivative:
  "(wave_R f e0 i0 has_real_derivative ((1 - f) * wave_I e0 i0 t)) (at t)"
proof -
  have "wave_R f e0 i0 = (\<lambda>x. (1 - f) * ((e0 + i0) - (e0 + i0 + e0 * x) * exp (- x)))"
    by (rule ext) (simp add: wave_R_def)
  then show ?thesis using wave_out_derivative [of "1 - f" e0 i0 t] by simp
qed

lemma wave_D_derivative:
  "(wave_D f e0 i0 has_real_derivative (f * wave_I e0 i0 t)) (at t)"
proof -
  have "wave_D f e0 i0 = (\<lambda>x. f * ((e0 + i0) - (e0 + i0 + e0 * x) * exp (- x)))"
    by (rule ext) (simp add: wave_D_def)
  then show ?thesis using wave_out_derivative [of f e0 i0 t] by simp
qed

lemma steady_trajectory:
  assumes "N g \<noteq> 0" and "beta g = 0 \<or> s = 0 \<or> i = 0" and "sigma g = 0 \<or> e = 0"
    and "gamma g = 0 \<or> i = 0"
  shows "seir_trajectory g A (steady s) (steady e) (steady i) (steady r) (steady d)"
  unfolding seir_trajectory_def
proof
  fix t assume "t \<in> A"
  have "seir_model g t [steady s t, steady e t, steady i t, steady r t, steady d t]
          = Inr [0, 0, 0, 0, 0]"
    using assms by (auto simp: seir_model_def steady_def)
  then show "\<exists>dS dE dI dR dD.
      seir_model g t [steady s t, steady e t, steady i t, steady r t, steady d t]
        = Inr [dS, dE, dI, dR, dD] \<and>
      (steady s has_real_derivative dS) (at t) \<and> (steady e has_real_derivative dE) (at t) \<and>
      (steady i has_real_derivative dI) (at t) \<and> (steady r has_real_derivative dR) (at t) \<and>
      (steady d has_real_derivative dD) (at t)"
    using steady_derivative by blast
qed

lemma wave_trajectory:
  assumes "N g \<noteq> 0" and "sigma g = 1" and "gamma g = 1" and "beta g = 0 \<or> s = 0"
  shows "seir_trajectory g A (steady s) (wave_E e0) (wave_I e0 i0)
           (wave_R (fatality_rate g) e0 i0) (wave_D (fatality_rate g) e0 i0)"
  unfolding seir_trajectory_def
proof
  fix t assume "t \<in> A"
  have "seir_model g t [steady s t, wave_E e0 t, wave_I e0 i0 t,
            wave_R (fatality_rate g) e0 i0 t, wave_D (fatality_rate g) e0 i0 t]
          = Inr [0, - wave_E e0 t, wave_E e0 t - wave_I e0 i0 t,
                 (1 - fatality_rate g) * wave_I e0 i0 t, fatality_rate g * wave_I e0 i0 t]"
    using assms by (auto simp: seir_model_def steady_def)
  then show "\<exists>dS dE dI dR dD.
      seir_model g t [steady s t, wave_E e0 t, wave_I e0 i0 t,
            wave_R (fatality_rate g) e0 i0 t, wave_D (fatality_rate g) e0 i0 t]
        = Inr [dS, dE, dI, dR, dD] \<and>
      (steady s has_real_derivative dS) (at t) \<and>
      (wave_E e0 has_real_derivative dE) (at t) \<and>
      (wave_I e0 i0 has_real_derivative dI) (at t) \<and>
      (wave_R (fatality_rate g) e0 i0 has_real_derivative dR) (at t) \<and>
      (wave_D (fatality_rate g) e0 i0 has_real_derivative dD) (at t)"
    using steady_derivative wave_E_derivative wave_I_derivative wave_R_derivative
      wave_D_derivative by blast
qed

subsection \<open>Trajectories without transmission\<close>

lemma exp_decay_tendsto:
  assumes "0 < k"
  shows "((\<lambda>t. c * exp (- (k * t))) \<longlongrightarrow> (0::real)) at_top"
proof -
  have "LIM t at_top. k * t :> at_top"
    by (rule filterlim_tendsto_pos_mult_at_top [OF tendsto_const assms filterlim_ident])
  then have "LIM t at_top. - (k * t) :> at_bot"
    by (simp add: filterlim_uminus_at_top)
  then have "((\<lambda>t. exp (- (k * t))) \<longlongrightarrow> 0) at_top"
    by (rule filterlim_compose [OF exp_at_bot])
  then show ?thesis by (rule tendsto_mult_right_zero)
qed

lemma weighted_derivative:
  fixes f :: "real \<Rightarrow> real"
  assumes "(f has_real_derivative f') (at x)"
  shows "((\<lambda>x. f x * exp (k * x)) has_real_derivative ((f' + k * f x) * exp (k * x))) (at x)"
  by (auto intro!: derivative_eq_intros DERIV_cong [OF assms] simp: algebra_simps)

lemma no_transmission_facts:
  assumes traj: "seir_trajectory g {0..} S E I R D"
    and b: "beta g = 0" and s: "0 \<le> sigma g" and gm: "0 \<le> gamma g"
    and init: "0 \<le> E 0" "0 \<le> I 0"
  shows S_const: "\<And>t. 0 \<le> t \<Longrightarrow> S t = S 0"
    and E_formula: "\<And>t. 0 \<le> t \<Longrightarrow> E t = E 0 * exp (- (sigma g * t))"
    and I_nonneg: "\<And>t. 0 \<le> t \<Longrightarrow> 0 \<le> I t"
    and EI_mono: "\<And>a c. 0 \<le> a \<Longrightarrow> a \<le> c \<Longrightarrow> E c \<le> E a \<and> E c + I c \<le> E a + I a"
    and I_bound: "\<And>t k. 0 \<le> t \<Longrightarrow> 2 * k \<le> sigma g \<Longrightarrow> k \<le> gamma g
                    \<Longrightarrow> I t \<le> (I 0 + 2 * E 0) * exp (- (k * t))"
proof -
  have dS: "(S has_real_derivative 0) (at x)" if "0 \<le> x" for x
    using seir_trajectoryD(2) [OF traj, of x] that b by simp
  have dE: "(E has_real_derivative (- (sigma g * E x))) (at x)" if "0 \<le> x" for x
    using seir_trajectoryD(3) [OF traj, of x] that b by simp
  have dI: "(I has_real_derivative (sigma g * E x - gamma g * I x)) (at x)" if "0 \<le> x" for x
    using seir_trajectoryD(4) [OF traj, of x] that by simp
  show Sc: "S t = S 0" if "0 \<le> t" for t
    by (rule zero_derivative_constant [OF that]) (rule dS)
  show Ef: "E t = E 0 * exp (- (sigma g * t))" if t: "0 \<le> t" for t
  proof -
    have "((\<lambda>x. E x * exp (sigma g * x)) has_real_derivative 0) (at x)" if "0 \<le> x" for x
      using weighted_derivative [OF dE [OF that], of "sigma g"] by simp
    from zero_derivative_constant [of 0 t "\<lambda>x. E x * exp (sigma g * x)", OF t this]
    have "E t * exp (sigma g * t) = E 0" by simp
    then show ?thesis by (simp add: exp_minus field_simps)
  qed
  have En: "0 \<le> E t" if "0 \<le> t" for t
    using Ef [OF that] init(1) by simp
  show In: "0 \<le> I t" if t: "0 \<le> t" for t
  proof -
    have "(\<lambda>x. I x * exp (gamma g * x)) 0 \<le> (\<lambda>x. I x * exp (gamma g * x)) t"
    proof (rule DERIV_nonneg_imp_nondecreasing [OF t])
      fix x :: real assume x: "0 \<le> x" "x \<le> t"
      have "((\<lambda>x. I x * exp (gamma g * x)) has_real_derivative
              (sigma g * E x * exp (gamma g * x))) (at x)"
        using weighted_derivative [OF dI [OF x(1)], of "gamma g"] by (simp add: algebra_simps)
      moreover have "0 \<le> sigma g * E x * exp (gamma g * x)"
        using s En [OF x(1)] by simp
      ultimately show "\<exists>y. ((\<lambda>x. I x * exp (gamma g * x)) has_real_derivative y) (at x) \<and> 0 \<le> y"
        by blast
    qed
    then have "0 \<le> I t * exp (gamma g * t)" using init(2) by simp
    then show ?thesis by (simp add: zero_le_mult_iff)
  qed
  show "E c \<le> E a \<and> E c + I c \<le> E a + I a" if ac: "0 \<le> a" "a \<le> c" for a c
  proof
    have "sigma g * a \<le> sigma g * c" using s ac by (simp add: mult_left_mono)
    then have "E 0 * exp (- (sigma g * c)) \<le> E 0 * exp (- (sigma g * a))"
      using init(1) by (simp add: mult_left_mono)
    then show "E c \<le> E a" using Ef [of a] Ef [of c] ac by simp
    have "(\<lambda>x. E x + I x) c \<le> (\<lambda>x. E x + I x) a"
    proof (rule DERIV_nonpos_imp_nonincreasing [OF ac(2)])
      fix x :: real assume x: "a \<le> x" "x \<le> c"
      then have x0: "0 \<le> x" using ac by simp
      have "((\<lambda>x. E x + I x) has_real_derivative (- (gamma g * I x))) (at x)"
        by (rule DERIV_cong [OF DERIV_add [OF dE [OF x0] dI [OF x0]]]) simp
      moreover have "- (gamma g * I x) \<le> 0" using gm In [OF x0] by simp
      ultimately show "\<exists>y. ((\<lambda>x. E x + I x) has_real_derivative y) (at x) \<and> y \<le> 0"
        by blast
    qed
    then show "E c + I c \<le> E a + I a" by simp
  qed
  show "I t \<le> (I 0 + 2 * E 0) * exp (- (k * t))"
    if t: "0 \<le> t" and k: "2 * k \<le> sigma g" "k \<le> gamma g" for t k
  proof -
    have "(\<lambda>x. (I x + 2 * E x) * exp (k * x)) t \<le> (\<lambda>x. (I x + 2 * E x) * exp (k * x)) 0"
    proof (rule DERIV_nonpos_imp_nonincreasing [OF t])
      fix x :: real assume x: "0 \<le> x" "x \<le> t"
      have "((\<lambda>x. I x + 2 * E x) has_real_derivative
              (sigma g * E x - gamma g * I x + 2 * (- (sigma g * E x)))) (at x)"
        by (intro DERIV_add DERIV_cmult dI dE x)
      from weighted_derivative [OF this, of k]
      have "((\<lambda>x. (I x + 2 * E x) * exp (k * x)) has_real_derivative
              (- ((sigma g - 2 * k) * E x + (gamma g - k) * I x) * exp (k * x))) (at x)"
        by (simp add: algebra_simps)
      moreover have "0 \<le> (sigma g - 2 * k) * E x + (gamma g - k) * I x"
        using k En [OF x(1)] In [OF x(1)] by simp
      then have "- ((sigma g - 2 * k) * E x + (gamma g - k) * I x) * exp (k * x) \<le> 0"
        by (simp add: mult_le_0_iff)
      ultimately show "\<exists>y. ((\<lambda>x. (I x + 2 * E x) * exp (k * x)) has_real_derivative y) (at x)
                             \<and> y \<le> 0"
        by blast
    qed
    then have "(I t + 2 * E t) * exp (k * t) \<le> I 0 + 2 * E 0" by simp
    then have "I t + 2 * E t \<le> (I 0 + 2 * E 0) * exp (- (k * t))"
      by (simp add: exp_minus field_simps)
    with En [OF t] show ?thesis by simp
  qed
qed


lemma wave_I_rises: "wave_I 3 1 0 < wave_I 3 1 1"
proof -
  have "exp 1 < (4::real)" using exp_le by simp
  then have "1 < 4 * exp (- 1 :: real)" by (simp add: exp_minus field_simps)
  then show ?thesis by (simp add: wave_I_def)
qed

lemma steady_no_decay: "c \<noteq> 0 \<Longrightarrow> \<not> (steady c \<longlongrightarrow> 0) at_top"
proof -
  assume c: "c \<noteq> 0"
  have "steady c = (\<lambda>t. c)" by (rule ext) (simp add: steady_def)
  then show ?thesis using c by (simp add: tendsto_const_iff)
qed

lemma no_transmission_sigma_zero:
  assumes traj: "seir_trajectory g {0..} S E I R D" and s: "sigma g = 0" and t: "0 \<le> t"
  shows "I t = I 0 * exp (- (gamma g * t))"
proof -
  have "((\<lambda>x. I x * exp (gamma g * x)) has_real_derivative 0) (at x)" if "0 \<le> x" for x
  proof -
    have "(I has_real_derivative (- (gamma g * I x))) (at x)"
      using seir_trajectoryD(4) [OF traj, of x] that s by simp
    from weighted_derivative [OF this, of "gamma g"] show ?thesis by simp
  qed
  from zero_derivative_constant [of 0 t "\<lambda>x. I x * exp (gamma g * x)", OF t this]
  have "I t * exp (gamma g * t) = I 0" by simp
  then show ?thesis by (simp add: exp_minus field_simps)
qed

lemma fill_I_derivative: "(fill_I e0 i0 has_real_derivative wave_E e0 t) (at t)"
proof -
  have "fill_I e0 i0 = (\<lambda>x. i0 + e0 * (1 - exp (- x)))"
    by (rule ext) (simp add: fill_I_def)
  moreover have "((\<lambda>x. i0 + e0 * (1 - exp (- x))) has_real_derivative e0 * exp (- t)) (at t)"
    by (auto intro!: derivative_eq_intros)
  ultimately show ?thesis by (simp add: wave_E_def)
qed

lemma fill_I_no_decay:
  assumes "0 \<le> e0" and "0 < i0"
  shows "\<not> (fill_I e0 i0 \<longlongrightarrow> 0) at_top"
proof
  assume lim: "(fill_I e0 i0 \<longlongrightarrow> 0) at_top"
  have "\<forall>\<^sub>F t in at_top. i0 \<le> fill_I e0 i0 t"
  proof (rule eventually_mono [OF eventually_ge_at_top [of 0]])
    fix t :: real assume "0 \<le> t"
    then have "0 \<le> e0 * (1 - exp (- t))" using assms(1) by simp
    then show "i0 \<le> fill_I e0 i0 t" by (simp add: fill_I_def)
  qed
  from tendsto_lowerbound [OF lim this] have "i0 \<le> 0" by simp
  with assms(2) show False by simp
qed

lemma contact_S_derivative:
  "(contact_S s0 c has_real_derivative (- (c * exp (- t) * contact_S s0 c t))) (at t)"
proof -
  have "contact_S s0 c = (\<lambda>x. s0 * exp (- (c * (1 - exp (- x)))))"
    by (rule ext) (simp add: contact_S_def)
  moreover have "((\<lambda>x. s0 * exp (- (c * (1 - exp (- x))))) has_real_derivative
      (- (c * exp (- t) * (s0 * exp (- (c * (1 - exp (- t)))))))) (at t)"
    by (auto intro!: derivative_eq_intros)
  ultimately show ?thesis by (simp add: contact_S_def)
qed

lemma contact_E_derivative:
  "(contact_E s0 e0 c has_real_derivative (c * exp (- t) * contact_S s0 c t)) (at t)"
proof -
  have "contact_E s0 e0 c = (\<lambda>x. e0 + s0 - contact_S s0 c x)"
    by (rule ext) (simp add: contact_E_def)
  moreover have "((\<lambda>x. e0 + s0 - contact_S s0 c x) has_real_derivative
      (c * exp (- t) * contact_S s0 c t)) (at t)"
    by (auto intro!: derivative_eq_intros DERIV_cong [OF contact_S_derivative])
  ultimately show ?thesis by simp
qed

lemma sigma_zero_trajectory:
  assumes "N g \<noteq> 0" and "sigma g = 0" and "gamma g = 1" and "beta g = 0 \<or> s = 0"
  shows "seir_trajectory g A (steady s) (steady e) (wave_I 0 i0)
           (wave_R (fatality_rate g) 0 i0) (wave_D (fatality_rate g) 0 i0)"
  unfolding seir_trajectory_def
proof
  fix t assume "t \<in> A"
  have "seir_model g t [steady s t, steady e t, wave_I 0 i0 t,
            wave_R (fatality_rate g) 0 i0 t, wave_D (fatality_rate g) 0 i0 t]
          = Inr [0, 0, wave_E 0 t - wave_I 0 i0 t,
                 (1 - fatality_rate g) * wave_I 0 i0 t, fatality_rate g * wave_I 0 i0 t]"
    using assms by (auto simp: seir_model_def steady_def wave_E_def)
  then show "\<exists>dS dE dI dR dD.
      seir_model g t [steady s t, steady e t, wave_I 0 i0 t,
            wave_R (fatality_rate g) 0 i0 t, wave_D (fatality_rate g) 0 i0 t]
        = Inr [dS, dE, dI, dR, dD] \<and>
      (steady s has_real_derivative dS) (at t) \<and>
      (steady e has_real_derivative dE) (at t) \<and>
      (wave_I 0 i0 has_real_derivative dI) (at t) \<and>
      (wave_R (fatality_rate g) 0 i0 has_real_derivative dR) (at t) \<and>
      (wave_D (fatality_rate g) 0 i0 has_real_derivative dD) (at t)"
    using steady_derivative wave_I_derivative wave_R_derivative wave_D_derivative by blast
qed

lemma gamma_zero_trajectory:
  assumes "N g \<noteq> 0" and "sigma g = 1" and "gamma g = 0" and "beta g = 0 \<or> s = 0"
  shows "seir_trajectory g A (steady s) (wave_E e0) (fill_I e0 i0) (steady r) (steady d)"
  unfolding seir_trajectory_def
proof
  fix t assume "t \<in> A"
  have "seir_model g t [steady s t, wave_E e0 t, fill_I e0 i0 t, steady r t, steady d t]
          = Inr [0, - wave_E e0 t, wave_E e0 t, 0, 0]"
    using assms by (auto simp: seir_model_def steady_def)
  then show "\<exists>dS dE dI dR dD.
      seir_model g t [steady s t, wave_E e0 t, fill_I e0 i0 t, steady r t, steady d t]
        = Inr [dS, dE, dI, dR, dD] \<and>
      (steady s has_real_derivative dS) (at t) \<and>
      (wave_E e0 has_real_derivative dE) (at t) \<and>
      (fill_I e0 i0 has_real_derivative dI) (at t) \<and>
      (steady r has_real_derivative dR) (at t) \<and>
      (steady d has_real_derivative dD) (at t)"
    using steady_derivative wave_E_derivative fill_I_derivative by blast
qed

lemma contact_trajectory:
  assumes "N g \<noteq> 0" and "sigma g = 0" and "gamma g = 1"
    and "c = beta g * i0 / real_of_int (N g)"
  shows "seir_trajectory g A (contact_S s0 c) (contact_E s0 e0 c) (wave_I 0 i0)
           (wave_R (fatality_rate g) 0 i0) (wave_D (fatality_rate g) 0 i0)"
  unfolding seir_trajectory_def
proof
  fix t assume "t \<in> A"
  have "seir_model g t [contact_S s0 c t, contact_E s0 e0 c t, wave_I 0 i0 t,
            wave_R (fatality_rate g) 0 i0 t, wave_D (fatality_rate g) 0 i0 t]
          = Inr [- (c * exp (- t) * contact_S s0 c t), c * exp (- t) * contact_S s0 c t,
                 wave_E 0 t - wave_I 0 i0 t,
                 (1 - fatality_rate g) * wave_I 0 i0 t, fatality_rate g * wave_I 0 i0 t]"
    using assms by (simp add: seir_model_def wave_E_def wave_I_def)
  then show "\<exists>dS dE dI dR dD.
      seir_model g t [contact_S s0 c t, contact_E s0 e0 c t, wave_I 0 i0 t,
            wave_R (fatality_rate g) 0 i0 t, wave_D (fatality_rate g) 0 i0 t]
        = Inr [dS, dE, dI, dR, dD] \<and>
      (contact_S s0 c has_real_derivative dS) (at t) \<and>
      (contact_E s0 e0 c has_real_derivative dE) (at t) \<and>
      (wave_I 0 i0 has_real_derivative dI) (at t) \<and>
      (wave_R (fatality_rate g) 0 i0 has_real_derivative dR) (at t) \<and>
      (wave_D (fatality_rate g) 0 i0 has_real_derivative dD) (at t)"
    using contact_S_derivative [of s0 c t] contact_E_derivative [of s0 e0 c t]
      wave_I_derivative [of 0 i0 t] wave_R_derivative [of "fatality_rate g" 0 i0 t]
      wave_D_derivative [of "fatality_rate g" 0 i0 t]
    by (intro exI [of _ "- (c * exp (- t) * contact_S s0 c t)"]
        exI [of _ "c * exp (- t) * contact_S s0 c t"]
        exI [of _ "wave_E 0 t - wave_I 0 i0 t"]
        exI [of _ "(1 - fatality_rate g) * wave_I 0 i0 t"]
        exI [of _ "fatality_rate g * wave_I 0 i0 t"]) simp
qed

subsection \<open>The recorded runs\<close>

lemma dip_run: "script (replay dip_solution) dip_widgets = Inr dip_outcome"
  by (simp add: script_def read_widgets_def simulate_def replay_def report_def
      dip_widgets_def dip_solution_def dip_outcome_def dip_I_def dip_D_def
      py_max_nonempty py_last_def py_int_def)

lemma calm_run: "simulate (replay calm_solution) calm_globals = Inr calm_outcome"
  by (simp add: simulate_def replay_def report_def
      calm_solution_def calm_outcome_def calm_I_def calm_D_def
      py_max_nonempty py_last_def py_int_def)

lemma sample_run: "simulate (replay sample_solution) sample_globals = Inr sample_outcome"
  by (simp add: simulate_def replay_def report_def sample_solution_def sample_outcome_def
      py_max_nonempty py_last_def py_int_def)

section \<open>The right-hand side\<close>

text \<open>
  C1. For every state vector \<open>(S, E, I, R, D)\<close> and every time \<open>t\<close>, \<open>seir_model\<close>
  returns the five derivatives
  \<open>- beta S I / N\<close>, \<open>beta S I / N - sigma E\<close>, \<open>sigma E - gamma I\<close>,
  \<open>gamma (1 - fatality_rate) I\<close> and \<open>gamma fatality_rate I\<close>, built from the
  closed-over constants (the population \<open>N\<close> being non-zero, as the quotient needs).
\<close>

theorem seir_model_derivatives:
  assumes "N g \<noteq> 0"
  shows "seir_model g t [S, E, I, R, D] =
           Inr [- beta g * S * I / real_of_int (N g),
                beta g * S * I / real_of_int (N g) - sigma g * E,
                sigma g * E - gamma g * I,
                gamma g * (1 - fatality_rate g) * I,
                gamma g * fatality_rate g * I]"
  using assms by (simp add: seir_model_def)

theorem seir_model_derivatives_witness:
  "N \<lparr>N = 1000, beta = 3/10, sigma = 1/5, gamma = 1/10, fatality_rate = 1/50,
      initial_infected = 10, initial_exposed = 5, days = 180\<rparr> \<noteq> 0
   \<and> seir_model \<lparr>N = 1000, beta = 3/10, sigma = 1/5, gamma = 1/10, fatality_rate = 1/50,
        initial_infected = 10, initial_exposed = 5, days = 180\<rparr> 0 [985, 5, 10, 0, 0]
     = Inr [- 591/200, 391/200, 0, 49/50, 1/50]"
  using seir_model_derivatives
    [of "\<lparr>N = 1000, beta = 3/10, sigma = 1/5, gamma = 1/10, fatality_rate = 1/50,
          initial_infected = 10, initial_exposed = 5, days = 180\<rparr>" 0 985 5 10 0 0]
  by simp

text \<open>
  C9. The result of \<open>seir_model\<close> does not depend on the time nor on the \<open>R\<close> and
  \<open>D\<close> entries of the state: two calls whose states agree on \<open>S\<close>, \<open>E\<close> and \<open>I\<close>
  return the same value.
\<close>

theorem seir_model_ignores_t_R_D:
  "seir_model g t [S, E, I, R, D] = seir_model g t' [S, E, I, R', D']"
  by (simp add: seir_model_def)

text \<open>
  C7 (as amended). For non-negative rate constants, a positive population and
  non-negative \<open>S\<close> and \<open>I\<close>, the derivative of \<open>D\<close> returned by \<open>seir_model\<close> is
  non-negative and that of \<open>S\<close> non-positive. Hence along a trajectory of the system
  (an exact solution, in real arithmetic) on which \<open>S\<close> and \<open>I\<close> stay non-negative,
  \<open>D\<close> never decreases and \<open>S\<close> never increases.
\<close>

theorem deaths_rise_susceptibles_fall:
  assumes traj: "seir_trajectory g {0..T} S E I R D"
    and rates: "0 \<le> beta g" "0 \<le> gamma g" "0 \<le> fatality_rate g"
    and pop: "0 < N g"
    and nonneg: "\<forall>t \<in> {0..T}. 0 \<le> I t \<and> 0 \<le> S t"
  shows "(\<forall>s y d. seir_model g s y = Inr d \<and> 0 \<le> y ! 0 \<and> 0 \<le> y ! 2
            \<longrightarrow> d ! 0 \<le> 0 \<and> 0 \<le> d ! 4)
       \<and> (\<forall>a b. 0 \<le> a \<and> a \<le> b \<and> b \<le> T \<longrightarrow> D a \<le> D b \<and> S b \<le> S a)"
proof -
  have sign: "d ! 0 \<le> 0 \<and> 0 \<le> d ! 4"
    if "seir_model g s y = Inr d" "0 \<le> y ! 0" "0 \<le> y ! 2" for s y d
  proof -
    from that(1) obtain S' E' I' R' D' where y: "y = [S', E', I', R', D']"
      unfolding seir_model_def by (auto split: list.splits)
    have "0 \<le> beta g * S' * I'" "0 \<le> gamma g * fatality_rate g * I'"
      using that(2,3) rates y by simp_all
    then show ?thesis using that(1) y pop
      by (auto simp: seir_model_def Let_def divide_nonneg_pos split: if_splits)
  qed
  have mono: "D a \<le> D b \<and> S b \<le> S a" if ab: "0 \<le> a" "a \<le> b" "b \<le> T" for a b
  proof
    show "D a \<le> D b"
    proof (rule DERIV_nonneg_imp_nondecreasing [OF ab(2)])
      fix x assume x: "a \<le> x" "x \<le> b"
      then have xA: "x \<in> {0..T}" using ab by simp
      have "0 \<le> gamma g * fatality_rate g * I x"
        using rates nonneg xA by simp
      with seir_trajectoryD(6) [OF traj xA]
      show "\<exists>y. (D has_real_derivative y) (at x) \<and> 0 \<le> y" by blast
    qed
    show "S b \<le> S a"
    proof (rule DERIV_nonpos_imp_nonincreasing [OF ab(2)])
      fix x assume x: "a \<le> x" "x \<le> b"
      then have xA: "x \<in> {0..T}" using ab by simp
      have "0 \<le> beta g * S x * I x"
        using rates nonneg xA by simp
      then have "- beta g * S x * I x / real_of_int (N g) \<le> 0"
        using pop by (simp add: divide_nonpos_pos)
      with seir_trajectoryD(2) [OF traj xA]
      show "\<exists>y. (S has_real_derivative y) (at x) \<and> y \<le> 0" by blast
    qed
  qed
  from sign mono show ?thesis by blast
qed

theorem deaths_rise_susceptibles_fall_witness:
  "seir_trajectory
     \<lparr>N = 1000, beta = 1, sigma = 0, gamma = 1, fatality_rate = 1 / 50,
      initial_infected = 10, initial_exposed = 5, days = 30\<rparr>
     {0..30} (contact_S 985 (1 / 100)) (contact_E 985 5 (1 / 100)) (wave_I 0 10)
     (wave_R (1 / 50) 0 10) (wave_D (1 / 50) 0 10)
   \<and> 0 < wave_I 0 10 7 \<and> 0 < contact_S 985 (1 / 100) 7
   \<and> wave_D (1 / 50) 0 10 7 \<le> wave_D (1 / 50) 0 10 8
   \<and> contact_S 985 (1 / 100) 8 \<le> contact_S 985 (1 / 100) 7"
proof -
  let ?g = "\<lparr>N = 1000, beta = 1, sigma = 0, gamma = 1, fatality_rate = 1 / 50,
             initial_infected = 10, initial_exposed = 5, days = 30\<rparr>"
  have traj: "seir_trajectory ?g {0..30} (contact_S 985 (1 / 100))
      (contact_E 985 5 (1 / 100)) (wave_I 0 10) (wave_R (1 / 50) 0 10) (wave_D (1 / 50) 0 10)"
    using contact_trajectory [of ?g "1 / 100" 10 "{0..30}" 985 5] by simp
  have nonneg: "\<forall>t \<in> {0..30}. 0 \<le> wave_I 0 10 t \<and> 0 \<le> contact_S 985 (1 / 100) t"
    by (simp add: wave_I_def contact_S_def)
  have pos: "0 < wave_I 0 10 7" "0 < contact_S 985 (1 / 100) 7"
    by (simp_all add: wave_I_def contact_S_def)
  have "(0::real) \<le> 7 \<and> (7::real) \<le> 8 \<and> (8::real) \<le> 30" by simp
  with deaths_rise_susceptibles_fall [OF traj _ _ _ _ nonneg]
  have "wave_D (1 / 50) 0 10 7 \<le> wave_D (1 / 50) 0 10 8
      \<and> contact_S 985 (1 / 100) 8 \<le> contact_S 985 (1 / 100) 7"
    by simp
  with traj pos show ?thesis by simp
qed

text \<open>
  The claim as first stated, read of the samples of a run, fails. For the first recorded
  answer, to widget values within their bounds, every \<open>S\<close> and \<open>I\<close> sample is
  non-negative, yet the \<open>D\<close> sample of day 28 is smaller than that of day 27 and the
  \<open>S\<close> sample larger.
\<close>

theorem deaths_dip_counterexample:
  "within_bounds dip_widgets
   \<and> script (replay dip_solution) dip_widgets = Inr dip_outcome
   \<and> list_all ((\<le>) 0) (out_S dip_outcome)
   \<and> list_all ((\<le>) 0) (out_I dip_outcome)
   \<and> out_time dip_outcome ! 27 < out_time dip_outcome ! 28
   \<and> out_D dip_outcome ! 28 < out_D dip_outcome ! 27
   \<and> out_S dip_outcome ! 27 < out_S dip_outcome ! 28
   \<and> out_D dip_outcome ! 27 = 3327484675 / 10000000000
   \<and> out_D dip_outcome ! 28 = 3327484609 / 10000000000"
proof -
  have "within_bounds dip_widgets"
    by (simp add: within_bounds_def dip_widgets_def)
  moreover have "list_all ((\<le>) 0) dip_S" "list_all ((\<le>) 0) dip_I"
    by (simp_all add: dip_S_def dip_I_def)
  moreover have "arange 0 30 ! 27 < arange 0 30 ! 28"
    by (simp add: nth_arange)
  moreover have "dip_D ! 27 = 3327484675 / 10000000000" "dip_D ! 28 = 3327484609 / 10000000000"
    "dip_S ! 27 < dip_S ! 28"
    by (simp_all add: dip_D_def dip_S_def)
  ultimately show ?thesis
    using dip_run by (simp add: dip_outcome_def)
qed

section \<open>The initial state\<close>

text \<open>
  C6. The initial state is \<open>[N - initial_infected - initial_exposed, initial_exposed,
  initial_infected, 0, 0]\<close> in the order \<open>S, E, I, R, D\<close>, and its entries add up to
  exactly \<open>N\<close>.
\<close>

theorem initial_state_components:
  "initial_state g =
     [N g - initial_infected g - initial_exposed g, initial_exposed g, initial_infected g, 0, 0]
   \<and> sum_list (initial_state g) = N g"
  by (simp add: initial_state_def S0_def E0_def I0_def R0_def D0_def)

section \<open>The run and its summary\<close>

text \<open>
  C4 (as amended). For every successful run, \<open>peak_infected\<close> is the largest value in
  the sampled \<open>I\<close> row and \<open>total_deaths\<close> the last value in the sampled \<open>D\<close> row,
  each cut down to an integer by \<open>int\<close> (rounding toward zero).
\<close>

theorem summary_values:
  assumes "simulate solve_ivp g = Inr out"
  shows "out_I out \<noteq> [] \<and> peak_infected out = py_int (Max (set (out_I out)))
       \<and> out_D out \<noteq> [] \<and> total_deaths out = py_int (last (out_D out))"
  using simulate_Inr [OF assms] report_Inr by blast

theorem summary_values_witness:
  "simulate (replay sample_solution) sample_globals = Inr sample_outcome
   \<and> out_I sample_outcome \<noteq> []
   \<and> peak_infected sample_outcome = py_int (Max (set (out_I sample_outcome)))
   \<and> out_D sample_outcome \<noteq> []
   \<and> total_deaths sample_outcome = py_int (last (out_D sample_outcome))"
  using summary_values [of "replay sample_solution" sample_globals sample_outcome] sample_run
  by simp

text \<open>
  The claim as first stated, without the rounding, fails on the recorded run: the
  largest \<open>I\<close> sample is 10.2 and the last \<open>D\<close> sample 0.002, the script prints 10
  and 0.
\<close>

theorem summary_values_counterexample:
  "simulate (replay sample_solution) sample_globals = Inr sample_outcome
   \<and> real_of_int (peak_infected sample_outcome) \<noteq> Max (set (out_I sample_outcome))
   \<and> real_of_int (total_deaths sample_outcome) \<noteq> last (out_D sample_outcome)
   \<and> peak_infected sample_outcome = 10
   \<and> Max (set (out_I sample_outcome)) = 51 / 5
   \<and> total_deaths sample_outcome = 0
   \<and> last (out_D sample_outcome) = 1 / 500"
  using sample_run by (simp add: sample_outcome_def)

text \<open>
  C10. For every successful run whose first sample is the initial state, the printed
  \<open>peak_infected\<close> is at least \<open>initial_infected\<close>.
\<close>

theorem peak_at_least_initial:
  assumes "simulate solve_ivp g = Inr out"
    and "map hd [out_S out, out_E out, out_I out, out_R out, out_D out]
           = map real_of_int (initial_state g)"
  shows "initial_infected g \<le> peak_infected out"
proof -
  have I: "out_I out \<noteq> []" and peak: "peak_infected out = py_int (Max (set (out_I out)))"
    using simulate_Inr [OF assms(1)] report_Inr by blast+
  have "hd (out_I out) = real_of_int (initial_infected g)"
    using assms(2) by (simp add: initial_state_def I0_def)
  moreover have "hd (out_I out) \<le> Max (set (out_I out))"
    using I by simp
  ultimately have "py_int (real_of_int (initial_infected g)) \<le> py_int (Max (set (out_I out)))"
    by (intro py_int_mono) simp
  then show ?thesis by (simp add: py_int_of_int peak)
qed

theorem peak_at_least_initial_witness:
  "simulate (replay sample_solution) sample_globals = Inr sample_outcome
   \<and> map hd [out_S sample_outcome, out_E sample_outcome, out_I sample_outcome,
             out_R sample_outcome, out_D sample_outcome]
       = map real_of_int (initial_state sample_globals)
   \<and> initial_infected sample_globals \<le> peak_infected sample_outcome"
proof -
  have first: "map hd [out_S sample_outcome, out_E sample_outcome, out_I sample_outcome,
             out_R sample_outcome, out_D sample_outcome]
       = map real_of_int (initial_state sample_globals)"
    by (simp add: sample_outcome_def sample_globals_def initial_state_def
        S0_def E0_def I0_def R0_def D0_def)
  from peak_at_least_initial [OF sample_run first] sample_run first show ?thesis by simp
qed

text \<open>
  C5. For every positive \<open>days\<close>, when the solver answers the script's call with
  samples at the requested times, the trajectory of a successful run is sampled at
  exactly \<open>0, 1, \<dots>, days - 1\<close>, in increasing order, every row has one entry per
  time, and the first sample is the initial state; for \<open>days = 1\<close> the trajectory is
  the single sample at time 0, the initial state.
\<close>

theorem trajectory_sample_times:
  assumes "0 < days g"
    and "solve_ivp (seir_model g) (0, real_of_int (days g))
           (map real_of_int (initial_state g)) (arange 0 (days g)) = Inr sol"
    and "samples_as_requested 0 (map real_of_int (initial_state g)) (arange 0 (days g)) sol"
    and "simulate solve_ivp g = Inr out"
  shows "out_time out = map real_of_int [0..days g - 1]
       \<and> length (out_time out) = nat (days g)
       \<and> (\<forall>k < nat (days g). out_time out ! k = real k)
       \<and> sorted_wrt (<) (out_time out)
       \<and> (\<forall>row \<in> set [out_S out, out_E out, out_I out, out_R out, out_D out].
            length row = length (out_time out))
       \<and> map hd [out_S out, out_E out, out_I out, out_R out, out_D out]
           = map real_of_int (initial_state g)
       \<and> (days g = 1 \<longrightarrow>
            out_time out = [0] \<and>
            [out_S out, out_E out, out_I out, out_R out, out_D out]
              = map (\<lambda>v. [real_of_int v]) (initial_state g))"
proof -
  have rep: "report sol = Inr out"
    using assms(2,4) by (simp add: simulate_def)
  note r = report_Inr [OF rep]
  have t: "out_time out = arange 0 (days g)"
    using r assms(3) by (simp add: samples_as_requested_def)
  have rows: "\<forall>row \<in> set [out_S out, out_E out, out_I out, out_R out, out_D out].
                length row = length (out_time out)"
    using r assms(3) t by (simp add: samples_as_requested_def)
  have ne: "arange 0 (days g) \<noteq> []" "hd (arange 0 (days g)) = 0"
    using assms(1) by (simp_all add: arange_def upto_rec1 [of 0])
  have first: "map hd [out_S out, out_E out, out_I out, out_R out, out_D out]
                 = map real_of_int (initial_state g)"
    using r assms(3) ne by (simp add: samples_as_requested_def)
  have one: "out_time out = [0] \<and>
            [out_S out, out_E out, out_I out, out_R out, out_D out]
              = map (\<lambda>v. [real_of_int v]) (initial_state g)" if "days g = 1"
  proof -
    have t1: "out_time out = [0]" using t that by (simp add: arange_def)
    have len1: "\<And>row. row \<in> set [out_S out, out_E out, out_I out, out_R out, out_D out]
                  \<Longrightarrow> row = [hd row]"
    proof -
      fix row assume "row \<in> set [out_S out, out_E out, out_I out, out_R out, out_D out]"
      with rows t1 have "length row = 1" by auto
      then show "row = [hd row]" by (cases row) auto
    qed
    have "out_S out = [hd (out_S out)]" "out_E out = [hd (out_E out)]"
      "out_I out = [hd (out_I out)]" "out_R out = [hd (out_R out)]"
      "out_D out = [hd (out_D out)]"
      by (rule len1, simp)+
    moreover have "hd (out_S out) = real_of_int (S0 g)" "hd (out_E out) = real_of_int (E0 g)"
      "hd (out_I out) = real_of_int (I0 g)" "hd (out_R out) = real_of_int R0"
      "hd (out_D out) = real_of_int D0"
      using first by (simp_all add: initial_state_def)
    ultimately have "[out_S out, out_E out, out_I out, out_R out, out_D out]
              = map (\<lambda>v. [real_of_int v]) (initial_state g)"
      by (simp add: initial_state_def)
    then show ?thesis using t1 by simp
  qed
  show ?thesis
    using t rows first one
    by (simp add: arange_def [of 0, symmetric] length_arange nth_arange arange_increasing)
qed

theorem trajectory_sample_times_witness:
  "0 < days sample_globals
   \<and> replay sample_solution (seir_model sample_globals) (0, real_of_int (days sample_globals))
       (map real_of_int (initial_state sample_globals)) (arange 0 (days sample_globals))
     = Inr sample_solution
   \<and> samples_as_requested 0 (map real_of_int (initial_state sample_globals))
       (arange 0 (days sample_globals)) sample_solution
   \<and> simulate (replay sample_solution) sample_globals = Inr sample_outcome
   \<and> out_time sample_outcome = map real_of_int [0..29]
   \<and> length (out_time sample_outcome) = 30
   \<and> length (out_I sample_outcome) = 30
   \<and> out_time sample_outcome ! 29 = 29"
proof -
  have d: "0 < days sample_globals" "days sample_globals = 30"
    by (simp_all add: sample_globals_def)
  have call: "replay sample_solution (seir_model sample_globals)
       (0, real_of_int (days sample_globals))
       (map real_of_int (initial_state sample_globals)) (arange 0 (days sample_globals))
     = Inr sample_solution"
    by (simp add: replay_def)
  have req: "samples_as_requested 0 (map real_of_int (initial_state sample_globals))
       (arange 0 (days sample_globals)) sample_solution"
    by (simp add: samples_as_requested_def sample_solution_def sample_globals_def
        initial_state_def S0_def E0_def I0_def R0_def D0_def length_arange)
  have k: "(29::nat) < nat (days sample_globals)" using d by simp
  from trajectory_sample_times [OF d(1) call req sample_run] d call req sample_run k
  show ?thesis by auto
qed

section \<open>What is checked before the solver runs\<close>

text \<open>
  C3 (as amended). The script has no parameter check of its own and no
  \<open>InvalidParameterError\<close>. The bounds of the widgets are the only gate: every input
  within them gives a population of at least 1000, at least 30 days, \<open>beta\<close> of at
  least 0.1, positive \<open>sigma\<close> and \<open>gamma\<close> and a non-negative fatality rate, and
  the script then calls the solver on the initial state and reports whatever comes back.
\<close>

theorem widgets_bound_and_solver_runs:
  assumes "within_bounds w"
  shows "\<exists>g. read_widgets w = Inr g
           \<and> 1000 \<le> N g \<and> 30 \<le> days g
           \<and> 1 / 10 \<le> beta g \<and> 0 < sigma g \<and> 0 < gamma g \<and> 0 \<le> fatality_rate g
           \<and> script solve_ivp w =
               (case solve_ivp (seir_model g) (0, real_of_int (days g))
                       (map real_of_int
                          [N g - initial_infected g - initial_exposed g,
                           initial_exposed g, initial_infected g, 0, 0])
                       (arange 0 (days g)) of
                  Inl e \<Rightarrow> Inl e
                | Inr sol \<Rightarrow> report sol)"
  using assms
  by (simp add: within_bounds_def read_widgets_def script_def simulate_def
      initial_state_def S0_def E0_def I0_def R0_def D0_def)

theorem widgets_bound_and_solver_runs_witness:
  "within_bounds
     \<lparr>total_population = 1000000, transmission_rate = 3 / 10, incubation_period = 5,
      infectious_period = 10, fatality_rate_slider = 1 / 50,
      initial_infected_individuals = 10, initial_exposed_individuals = 5,
      simulation_days = 180\<rparr>
   \<and> (\<exists>g. read_widgets
             \<lparr>total_population = 1000000, transmission_rate = 3 / 10, incubation_period = 5,
              infectious_period = 10, fatality_rate_slider = 1 / 50,
              initial_infected_individuals = 10, initial_exposed_individuals = 5,
              simulation_days = 180\<rparr> = Inr g
          \<and> 1000 \<le> N g \<and> 30 \<le> days g
          \<and> 1 / 10 \<le> beta g \<and> 0 < sigma g \<and> 0 < gamma g \<and> 0 \<le> fatality_rate g)"
  using widgets_bound_and_solver_runs
    [of "\<lparr>total_population = 1000000, transmission_rate = 3 / 10, incubation_period = 5,
          infectious_period = 10, fatality_rate_slider = 1 / 50,
          initial_infected_individuals = 10, initial_exposed_individuals = 5,
          simulation_days = 180\<rparr>" "replay sample_solution"]
  by (auto simp: within_bounds_def)

text \<open>
  The claim as first stated fails: with a population of 1000 and 1000 infected plus
  1000 exposed individuals, all within the widgets' bounds, the script does not stop.
  It calls the solver with \<open>S0 = - 1000\<close> and reports the thirty samples it is given.
\<close>

theorem no_rejection_counterexample:
  "within_bounds
     \<lparr>total_population = 1000, transmission_rate = 3 / 10, incubation_period = 5,
      infectious_period = 10, fatality_rate_slider = 1 / 50,
      initial_infected_individuals = 1000, initial_exposed_individuals = 1000,
      simulation_days = 30\<rparr>
   \<and> total_population
       \<lparr>total_population = 1000, transmission_rate = 3 / 10, incubation_period = 5,
        infectious_period = 10, fatality_rate_slider = 1 / 50,
        initial_infected_individuals = 1000, initial_exposed_individuals = 1000,
        simulation_days = 30\<rparr> < 1000 + 1000
   \<and> script
       (replay \<lparr>sol_t = arange 0 30,
                sol_y = [replicate 30 (- 1000), replicate 30 1000, replicate 30 1000,
                         replicate 30 0, replicate 30 0]\<rparr>)
       \<lparr>total_population = 1000, transmission_rate = 3 / 10, incubation_period = 5,
        infectious_period = 10, fatality_rate_slider = 1 / 50,
        initial_infected_individuals = 1000, initial_exposed_individuals = 1000,
        simulation_days = 30\<rparr>
     = Inr \<lparr>out_time = arange 0 30,
            out_S = replicate 30 (- 1000), out_E = replicate 30 1000,
            out_I = replicate 30 1000, out_R = replicate 30 0, out_D = replicate 30 0,
            peak_infected = 1000, total_deaths = 0\<rparr>"
  by (simp add: within_bounds_def script_def read_widgets_def simulate_def replay_def
      report_def py_max_nonempty py_last_def py_int_def)

section \<open>No transmission\<close>

text \<open>
  C8 (as amended). With \<open>beta = 0\<close> and non-negative \<open>sigma\<close> and \<open>gamma\<close>, the
  \<open>S\<close> derivative returned by \<open>seir_model\<close> is zero. Along a trajectory of the system
  (an exact solution, in real arithmetic, for all times from 0 on) with non-negative
  initial \<open>E\<close> and \<open>I\<close>: \<open>S\<close> stays at \<open>S 0\<close>; \<open>E\<close> decays as
  \<open>E 0 * exp (- sigma t)\<close> and is non-increasing; the sum \<open>E + I\<close> is non-increasing
  (\<open>I\<close> alone need not be); \<open>E\<close> tends to 0 when \<open>sigma\<close> is positive, and \<open>I\<close>
  tends to 0 when \<open>gamma\<close> is positive.
\<close>

theorem no_transmission:
  assumes traj: "seir_trajectory g {0..} S E I R D"
    and b: "beta g = 0" and s: "0 \<le> sigma g" and gm: "0 \<le> gamma g"
    and init: "0 \<le> E 0" "0 \<le> I 0"
  shows "(\<forall>t y d. seir_model g t y = Inr d \<longrightarrow> d ! 0 = 0)
       \<and> (\<forall>t \<ge> 0. S t = S 0)
       \<and> (\<forall>t \<ge> 0. E t = E 0 * exp (- (sigma g * t)))
       \<and> (\<forall>a c. 0 \<le> a \<and> a \<le> c \<longrightarrow> E c \<le> E a \<and> E c + I c \<le> E a + I a)
       \<and> (0 < sigma g \<longrightarrow> (E \<longlongrightarrow> 0) at_top)
       \<and> (0 < gamma g \<longrightarrow> (I \<longlongrightarrow> 0) at_top)"
proof -
  note facts = no_transmission_facts [OF traj b s gm init]
  have zero: "d ! 0 = 0" if "seir_model g t y = Inr d" for t y d
    using that b by (auto simp: seir_model_def Let_def split: list.splits if_splits)
  have E_lim: "(E \<longlongrightarrow> 0) at_top" if "0 < sigma g"
  proof (rule Lim_transform_eventually [OF exp_decay_tendsto [OF that, of "E 0"]])
    show "\<forall>\<^sub>F t in at_top. E 0 * exp (- (sigma g * t)) = E t"
      by (rule eventually_mono [OF eventually_ge_at_top [of 0]]) (rule facts(2) [symmetric])
  qed
  have I_lim: "(I \<longlongrightarrow> 0) at_top" if pos: "0 < gamma g"
  proof (cases "sigma g = 0")
    case True
    show ?thesis
    proof (rule Lim_transform_eventually [OF exp_decay_tendsto [OF pos, of "I 0"]])
      show "\<forall>\<^sub>F t in at_top. I 0 * exp (- (gamma g * t)) = I t"
        by (rule eventually_mono [OF eventually_ge_at_top [of 0]])
          (rule no_transmission_sigma_zero [OF traj True, symmetric])
    qed
  next
    case False
    define k where "k = min (sigma g) (gamma g) / 2"
    have k: "0 < k" "2 * k \<le> sigma g" "k \<le> gamma g"
      using pos s False by (simp_all add: k_def min_def)
    show ?thesis
    proof (rule tendsto_sandwich [OF _ _ tendsto_const
          exp_decay_tendsto [OF k(1), of "I 0 + 2 * E 0"]])
      show "\<forall>\<^sub>F t in at_top. 0 \<le> I t"
        by (rule eventually_mono [OF eventually_ge_at_top [of 0]]) (simp add: facts(3))
      show "\<forall>\<^sub>F t in at_top. I t \<le> (I 0 + 2 * E 0) * exp (- (k * t))"
        by (rule eventually_mono [OF eventually_ge_at_top [of 0]]) (simp add: facts(5) k)
    qed
  qed
  from zero facts(1,2,4) E_lim I_lim show ?thesis by blast
qed

theorem no_transmission_witness:
  "seir_trajectory calm_globals {0..} (steady 996) (wave_E 3) (wave_I 3 1)
     (wave_R (1 / 50) 3 1) (wave_D (1 / 50) 3 1)
   \<and> beta calm_globals = 0 \<and> 0 \<le> sigma calm_globals \<and> 0 \<le> gamma calm_globals
   \<and> 0 \<le> wave_E 3 0 \<and> 0 \<le> wave_I 3 1 0
   \<and> steady 996 2 = steady 996 0
   \<and> wave_E 3 2 \<le> wave_E 3 1
   \<and> wave_E 3 2 + wave_I 3 1 2 \<le> wave_E 3 1 + wave_I 3 1 1
   \<and> (wave_E 3 \<longlongrightarrow> 0) at_top
   \<and> (wave_I 3 1 \<longlongrightarrow> 0) at_top"
proof -
  have g: "beta calm_globals = 0" "0 \<le> sigma calm_globals" "0 \<le> gamma calm_globals"
    "0 < sigma calm_globals" "0 < gamma calm_globals" "fatality_rate calm_globals = 1 / 50"
    by (simp_all add: calm_globals_def)
  have traj: "seir_trajectory calm_globals {0..} (steady 996) (wave_E 3) (wave_I 3 1)
      (wave_R (1 / 50) 3 1) (wave_D (1 / 50) 3 1)"
    using wave_trajectory [of calm_globals 996 "{0..}" 3 1] by (simp add: calm_globals_def)
  have init: "0 \<le> wave_E 3 0" "0 \<le> wave_I 3 1 0"
    by (simp_all add: wave_E_def wave_I_def)
  note nt = no_transmission [OF traj g(1,2,3) init]
  have order: "(0::real) \<le> 1 \<and> (1::real) \<le> 2" "(0::real) \<le> 2" by simp_all
  from nt order have "steady 996 2 = steady 996 0"
    "wave_E 3 2 \<le> wave_E 3 1"
    "wave_E 3 2 + wave_I 3 1 2 \<le> wave_E 3 1 + wave_I 3 1 1"
    by blast+
  moreover from nt g(4,5) have "(wave_E 3 \<longlongrightarrow> 0) at_top" "(wave_I 3 1 \<longlongrightarrow> 0) at_top"
    by blast+
  ultimately show ?thesis using traj g(1,2,3) init by blast
qed

text \<open>
  The claim as first stated fails, for exact solutions and for the samples of a run.
  With \<open>sigma = gamma = 1\<close>, three exposed and one infected individual, \<open>I\<close> is
  larger after one day than at the start. With \<open>sigma = 0\<close> the exposed stay exposed,
  and with \<open>gamma = 0\<close> the infected stay infected: \<open>E\<close>, respectively \<open>I\<close>, does
  not approach 0. In the second recorded answer, for \<open>beta = 0\<close>, the \<open>I\<close> sample of
  day 1 is above that of day 0, and the \<open>E\<close> sample and the sum of the \<open>E\<close> and
  \<open>I\<close> samples of day 20 are above those of day 19.
\<close>

theorem no_transmission_counterexample:
  "beta calm_globals = 0 \<and> 0 \<le> sigma calm_globals \<and> 0 \<le> gamma calm_globals
   \<and> seir_trajectory calm_globals {0..} (steady 996) (wave_E 3) (wave_I 3 1)
       (wave_R (1 / 50) 3 1) (wave_D (1 / 50) 3 1)
   \<and> [steady 996 0, wave_E 3 0, wave_I 3 1 0, wave_R (1 / 50) 3 1 0, wave_D (1 / 50) 3 1 0]
     = map real_of_int (initial_state calm_globals)
   \<and> wave_I 3 1 0 < wave_I 3 1 1
   \<and> seir_trajectory (calm_globals\<lparr>sigma := 0\<rparr>) {0..} (steady 996) (steady 3) (wave_I 0 1)
       (wave_R (1 / 50) 0 1) (wave_D (1 / 50) 0 1)
   \<and> [steady 996 0, steady 3 0, wave_I 0 1 0, wave_R (1 / 50) 0 1 0, wave_D (1 / 50) 0 1 0]
     = map real_of_int (initial_state (calm_globals\<lparr>sigma := 0\<rparr>))
   \<and> \<not> (steady 3 \<longlongrightarrow> 0) at_top
   \<and> seir_trajectory (calm_globals\<lparr>gamma := 0\<rparr>) {0..} (steady 996) (wave_E 3) (fill_I 3 1)
       (steady 0) (steady 0)
   \<and> [steady 996 0, wave_E 3 0, fill_I 3 1 0, steady 0 0, steady 0 0]
     = map real_of_int (initial_state (calm_globals\<lparr>gamma := 0\<rparr>))
   \<and> \<not> (fill_I 3 1 \<longlongrightarrow> 0) at_top
   \<and> simulate (replay calm_solution) calm_globals = Inr calm_outcome
   \<and> out_I calm_outcome ! 0 < out_I calm_outcome ! 1
   \<and> out_E calm_outcome ! 19 < out_E calm_outcome ! 20
   \<and> out_E calm_outcome ! 19 + out_I calm_outcome ! 19
       < out_E calm_outcome ! 20 + out_I calm_outcome ! 20"
proof -
  have "seir_trajectory calm_globals {0..} (steady 996) (wave_E 3) (wave_I 3 1)
      (wave_R (1 / 50) 3 1) (wave_D (1 / 50) 3 1)"
    using wave_trajectory [of calm_globals 996 "{0..}" 3 1] by (simp add: calm_globals_def)
  moreover have "seir_trajectory (calm_globals\<lparr>sigma := 0\<rparr>) {0..} (steady 996) (steady 3)
      (wave_I 0 1) (wave_R (1 / 50) 0 1) (wave_D (1 / 50) 0 1)"
    using sigma_zero_trajectory [of "calm_globals\<lparr>sigma := 0\<rparr>" 996 "{0..}" 3 1]
    by (simp add: calm_globals_def)
  moreover have "seir_trajectory (calm_globals\<lparr>gamma := 0\<rparr>) {0..} (steady 996) (wave_E 3)
      (fill_I 3 1) (steady 0) (steady 0)"
    by (rule gamma_zero_trajectory) (simp_all add: calm_globals_def)
  moreover have "\<not> (steady 3 \<longlongrightarrow> 0) at_top" "\<not> (fill_I 3 1 \<longlongrightarrow> 0) at_top"
    by (simp_all add: steady_no_decay fill_I_no_decay)
  moreover have "calm_I ! 0 < calm_I ! 1" "calm_E ! 19 < calm_E ! 20"
    "calm_E ! 19 + calm_I ! 19 < calm_E ! 20 + calm_I ! 20"
    by (simp_all add: calm_I_def calm_E_def)
  ultimately show ?thesis
    using wave_I_rises calm_run
    by (simp add: calm_outcome_def calm_globals_def steady_def wave_E_def wave_I_def
        wave_R_def wave_D_def fill_I_def
        initial_state_def S0_def E0_def I0_def R0_def D0_def)
qed

end
